theory Spec2Isabelle
  imports Complex_Main "HOL-Library.Word"
begin

section \<open>The white-noise compute shader module\<close>

text \<open>
  A shallow embedding of \<^verbatim>\<open>ComputeShaderDeclaration.cpp\<close>: the shader class
  \<^verbatim>\<open>FWhiteNoiseCS\<close> with its two compilation hooks, its registration as a global shader,
  and the manager \<^verbatim>\<open>FWhiteNoiseCSManager\<close> whose render-thread callback dispatches the
  shader. The host engine is not part of the file. Its objects appear as plain data, and
  every call into it that leaves a mark (a request to the render target pool, the execution
  of a render graph, a command recorded on the RHI command list) is written to a log in the
  order in which the code makes it.
\<close>

subsection \<open>Integers\<close>

text \<open>
  \<^verbatim>\<open>int32\<close> is a 32-bit two's complement integer. Addition and subtraction wrap around;
  division truncates towards zero, as in C++.
\<close>

type_synonym int32 = "32 word"

definition int32_div :: "int32 \<Rightarrow> int32 \<Rightarrow> int32" where
  "int32_div a b = word_of_int (sgn (sint a) * sgn (sint b) * (\<bar>sint a\<bar> div \<bar>sint b\<bar>))"

text \<open>\<^verbatim>\<open>#define NUM_THREADS_PER_GROUP_DIMENSION 32\<close>\<close>

definition NUM_THREADS_PER_GROUP_DIMENSION :: int32 where
  "NUM_THREADS_PER_GROUP_DIMENSION = 32"

text \<open>
  \<^verbatim>\<open>FMath::DivideAndRoundUp\<close> is the engine's template
  \<^verbatim>\<open>(Dividend + Divisor - 1) / Divisor\<close>, used here at \<^verbatim>\<open>int32\<close>.
\<close>

definition DivideAndRoundUp :: "int32 \<Rightarrow> int32 \<Rightarrow> int32" where
  "DivideAndRoundUp Dividend Divisor = int32_div (Dividend + Divisor - 1) Divisor"

record FIntPoint =
  X :: int32
  Y :: int32

datatype FIntVector = FIntVector int32 int32 int32

subsection \<open>The shader class and its compilation hooks\<close>

datatype ERHIFeatureLevel = ES2_REMOVED | ES3_1 | SM4_REMOVED | SM5

type_synonym EShaderPlatform = nat

record FGlobalShaderPermutationParameters =
  Platform :: EShaderPlatform
  PermutationId :: int32

text \<open>
  \<^verbatim>\<open>FWhiteNoiseCS::ShouldCompilePermutation\<close>. The engine's predicate
  \<^verbatim>\<open>IsFeatureLevelSupported\<close> is a parameter.
\<close>

definition ShouldCompilePermutation ::
  "(EShaderPlatform \<Rightarrow> ERHIFeatureLevel \<Rightarrow> bool) \<Rightarrow> FGlobalShaderPermutationParameters \<Rightarrow> bool" where
  "ShouldCompilePermutation IsFeatureLevelSupported Parameters =
     IsFeatureLevelSupported (Platform Parameters) SM5"

text \<open>
  A compiler environment holds preprocessor definitions by name, and whatever else the
  engine keeps in it (the record's extension). \<^verbatim>\<open>SetDefine\<close> with an integer value
  binds the name to that value.
\<close>

datatype FDefineValue = DefineInt int32 | DefineText string

record FShaderCompilerEnvironment =
  Definitions :: "string \<rightharpoonup> FDefineValue"

definition SetDefine ::
  "'a FShaderCompilerEnvironment_scheme \<Rightarrow> string \<Rightarrow> int32 \<Rightarrow> 'a FShaderCompilerEnvironment_scheme" where
  "SetDefine Env Name Val = Env\<lparr>Definitions := (Definitions Env)(Name \<mapsto> DefineInt Val)\<rparr>"

text \<open>
  \<^verbatim>\<open>FWhiteNoiseCS::ModifyCompilationEnvironment\<close>. The first argument is the base class
  hook \<^verbatim>\<open>FGlobalShader::ModifyCompilationEnvironment\<close>; the function returns the
  environment it was given by reference.
\<close>

definition ModifyCompilationEnvironment ::
  "(FGlobalShaderPermutationParameters \<Rightarrow> 'a FShaderCompilerEnvironment_scheme \<Rightarrow> 'a FShaderCompilerEnvironment_scheme)
   \<Rightarrow> FGlobalShaderPermutationParameters \<Rightarrow> 'a FShaderCompilerEnvironment_scheme
   \<Rightarrow> 'a FShaderCompilerEnvironment_scheme" where
  "ModifyCompilationEnvironment FGlobalShader_ModifyCompilationEnvironment Parameters OutEnvironment =
     (let OutEnvironment = FGlobalShader_ModifyCompilationEnvironment Parameters OutEnvironment;
          OutEnvironment = SetDefine OutEnvironment ''THREADGROUPSIZE_X'' NUM_THREADS_PER_GROUP_DIMENSION;
          OutEnvironment = SetDefine OutEnvironment ''THREADGROUPSIZE_Y'' NUM_THREADS_PER_GROUP_DIMENSION;
          OutEnvironment = SetDefine OutEnvironment ''THREADGROUPSIZE_Z'' 1
      in OutEnvironment)"

text \<open>
  \<^verbatim>\<open>IMPLEMENT_GLOBAL_SHADER\<close> registers a shader type with the engine when the module
  is loaded. The registry is the list of types registered so far; loading this module runs
  the one registration the file contains.
\<close>

datatype EShaderFrequency = SF_Vertex | SF_Pixel | SF_Geometry | SF_Compute

record FShaderTypeRegistration =
  ShaderType :: string
  ShaderPath :: string
  FunctionName :: string
  Frequency :: EShaderFrequency

definition IMPLEMENT_GLOBAL_SHADER ::
  "string \<Rightarrow> string \<Rightarrow> string \<Rightarrow> EShaderFrequency \<Rightarrow> FShaderTypeRegistration list
   \<Rightarrow> FShaderTypeRegistration list" where
  "IMPLEMENT_GLOBAL_SHADER ty path entry freq registry =
     registry @ [\<lparr>ShaderType = ty, ShaderPath = path, FunctionName = entry, Frequency = freq\<rparr>]"

definition module_static_init :: "FShaderTypeRegistration list \<Rightarrow> FShaderTypeRegistration list" where
  "module_static_init registry =
     IMPLEMENT_GLOBAL_SHADER ''FWhiteNoiseCS'' ''/CustomShaders/WhiteNoiseCS.usf''
       ''MainComputeShader'' SF_Compute registry"

subsection \<open>Render targets, pooled textures and the render graph\<close>

datatype EPixelFormat = PF_R32_UINT | PF_R16F | PF_Other nat

text \<open>Texture creation flags are a bit mask; a mask is the set of its bits.\<close>

datatype ETextureCreateFlag = TexCreate_ShaderResource_bit | TexCreate_UAV_bit

type_synonym ETextureCreateFlags = "ETextureCreateFlag set"

definition TexCreate_None :: ETextureCreateFlags where
  "TexCreate_None = {}"

definition TexCreate_ShaderResource :: ETextureCreateFlags where
  "TexCreate_ShaderResource = {TexCreate_ShaderResource_bit}"

definition TexCreate_UAV :: ETextureCreateFlags where
  "TexCreate_UAV = {TexCreate_UAV_bit}"

datatype FClearValueBinding = FClearValueBinding_None | FClearValueBinding_Color nat

record FPooledRenderTargetDesc =
  Extent :: FIntPoint
  Format :: EPixelFormat
  ClearValue :: FClearValueBinding
  Flags :: ETextureCreateFlags
  TargetableFlags :: ETextureCreateFlags
  bForceSeparateTargetAndShaderResource :: bool

definition Create2DDesc ::
  "FIntPoint \<Rightarrow> EPixelFormat \<Rightarrow> FClearValueBinding \<Rightarrow> ETextureCreateFlags \<Rightarrow> ETextureCreateFlags
   \<Rightarrow> bool \<Rightarrow> FPooledRenderTargetDesc" where
  "Create2DDesc InExtent InFormat InClearValue InFlags InTargetableFlags bInForceSeparate =
     \<lparr>Extent = InExtent, Format = InFormat, ClearValue = InClearValue, Flags = InFlags,
      TargetableFlags = InTargetableFlags, bForceSeparateTargetAndShaderResource = bInForceSeparate\<rparr>"

datatype FRDGTextureDesc = Create2D FIntPoint EPixelFormat FClearValueBinding ETextureCreateFlags

text \<open>
  The element the pool hands back for a request is known by the request: its descriptor
  and debug name. A texture is either the texture behind a render target resource, known by
  a handle, or the shader resource texture of a pooled element.
\<close>

datatype IPooledRenderTarget = PooledRenderTarget FPooledRenderTargetDesc string

datatype FRHITexture = Texture2DRHI nat | ShaderResourceTexture IPooledRenderTarget

text \<open>
  Of a \<^verbatim>\<open>UTextureRenderTarget2D\<close> the code reads \<^verbatim>\<open>GetRenderTargetResource()\<close>, a
  pointer to the resource, null (\<open>None\<close>) as long as the render target has no resource.
  Of the resource it reads two references, each of which can be null: the texture that
  \<^verbatim>\<open>GetRenderTargetTexture()\<close> returns, and \<^verbatim>\<open>TextureRHI\<close>, a texture of which the
  code asks the format.
\<close>

record FTextureRenderTargetResource =
  GetRenderTargetTexture :: "FRHITexture option"
  TextureRHI :: "EPixelFormat option"

record UTextureRenderTarget2D =
  GetRenderTargetResource :: "FTextureRenderTargetResource option"

datatype ERenderTargetTexture = ERenderTargetTexture_Targetable | ERenderTargetTexture_ShaderResource

datatype ERDGTextureFlags = ERDGTextureFlags_None | ERDGTextureFlags_MultiFrame

datatype FRDGTextureRef =
  FRDGTexture IPooledRenderTarget string ERenderTargetTexture ERDGTextureFlags

datatype FRDGTextureUAVRef = FRDGTextureUAV FRDGTextureRef

text \<open>\<^verbatim>\<open>FWhiteNoiseCS::FParameters\<close>: one UAV, unset in a freshly allocated struct.\<close>

record FParameters =
  OutputTexture :: "FRDGTextureUAVRef option"

datatype ERDGPassFlags = Raster | Compute | AsyncCompute | Copy

text \<open>A reference to a shader of a type, taken from the global shader map of a feature level.\<close>

datatype FShaderRef = TShaderMapRef string ERHIFeatureLevel

datatype rhi_command =
    Dispatch FShaderRef FParameters FIntVector
  | CopyTexture FRHITexture FRHITexture

text \<open>
  A pass of the render graph keeps its event name, its parameters, its flags and the
  lambda to run, a function that records commands on the command list it is handed.
\<close>

record FRDGPass =
  Name :: string
  ParameterStruct :: FParameters
  PassFlags :: ERDGPassFlags
  ExecuteLambda :: "rhi_command list \<Rightarrow> rhi_command list"

record FRDGBuilder =
  Passes :: "FRDGPass list"

text \<open>
  The log of the immediate command list: requests to the render target pool made with it,
  executions of a render graph built on it (for each pass run, in order: its name, its flags
  and the commands its lambda recorded), and commands recorded on it directly.
\<close>

datatype render_event =
    FindFreeElement FPooledRenderTargetDesc string
  | GraphExecute "(string \<times> ERDGPassFlags \<times> rhi_command list) list"
  | Immediate rhi_command

type_synonym FRHICommandListImmediate = "render_event list"

definition GRenderTargetPool_FindFreeElement ::
  "FRHICommandListImmediate \<Rightarrow> FPooledRenderTargetDesc \<Rightarrow> string
   \<Rightarrow> IPooledRenderTarget \<times> FRHICommandListImmediate" where
  "GRenderTargetPool_FindFreeElement RHICmdList Desc InDebugName =
     (PooledRenderTarget Desc InDebugName, RHICmdList @ [FindFreeElement Desc InDebugName])"

definition RegisterExternalTexture ::
  "FRDGBuilder \<Rightarrow> IPooledRenderTarget \<Rightarrow> string \<Rightarrow> ERenderTargetTexture \<Rightarrow> ERDGTextureFlags
   \<Rightarrow> FRDGTextureRef" where
  "RegisterExternalTexture GraphBuilder ExternalPooledTexture NameIfNotRegistered RenderTargetTexture TexFlags =
     FRDGTexture ExternalPooledTexture NameIfNotRegistered RenderTargetTexture TexFlags"

definition CreateUAV :: "FRDGBuilder \<Rightarrow> FRDGTextureRef \<Rightarrow> FRDGTextureUAVRef" where
  "CreateUAV GraphBuilder Texture = FRDGTextureUAV Texture"

definition AllocParameters :: "FRDGBuilder \<Rightarrow> FParameters" where
  "AllocParameters GraphBuilder = \<lparr>OutputTexture = None\<rparr>"

definition AddPass ::
  "FRDGBuilder \<Rightarrow> string \<Rightarrow> FParameters \<Rightarrow> ERDGPassFlags \<Rightarrow> (rhi_command list \<Rightarrow> rhi_command list)
   \<Rightarrow> FRDGBuilder" where
  "AddPass GraphBuilder EventName PassParameters InFlags Lambda =
     GraphBuilder\<lparr>Passes := Passes GraphBuilder @
       [\<lparr>Name = EventName, ParameterStruct = PassParameters, PassFlags = InFlags, ExecuteLambda = Lambda\<rparr>]\<rparr>"

definition Execute :: "FRDGBuilder \<Rightarrow> FRHICommandListImmediate \<Rightarrow> FRHICommandListImmediate" where
  "Execute GraphBuilder RHICmdList =
     RHICmdList @ [GraphExecute (map (\<lambda>P. (Name P, PassFlags P, ExecuteLambda P [])) (Passes GraphBuilder))]"

definition FComputeShaderUtils_Dispatch ::
  "rhi_command list \<Rightarrow> FShaderRef \<Rightarrow> FParameters \<Rightarrow> FIntVector \<Rightarrow> rhi_command list" where
  "FComputeShaderUtils_Dispatch RHICmdList ComputeShader Parameters GroupCount =
     RHICmdList @ [Dispatch ComputeShader Parameters GroupCount]"

definition RHICmdList_CopyTexture ::
  "FRHICommandListImmediate \<Rightarrow> FRHITexture \<Rightarrow> FRHITexture \<Rightarrow> FRHICommandListImmediate" where
  "RHICmdList_CopyTexture RHICmdList SourceTexture DestTexture =
     RHICmdList @ [Immediate (CopyTexture SourceTexture DestTexture)]"

subsection \<open>The manager\<close>

text \<open>
  The declarations of \<^verbatim>\<open>FWhiteNoiseCSParameters\<close> and \<^verbatim>\<open>FWhiteNoiseCSManager\<close>
  are in the header. The source file uses, of the parameters, the pointer
  \<^verbatim>\<open>RenderTarget\<close> (\<open>None\<close> is the null pointer) and the value of
  \<^verbatim>\<open>GetRenderTargetSize()\<close>; of the manager, the members \<^verbatim>\<open>cachedParams\<close> and
  \<^verbatim>\<open>bCachedParamsAreValid\<close>.
\<close>

record FWhiteNoiseCSParameters =
  RenderTarget :: "UTextureRenderTarget2D option"
  GetRenderTargetSize :: FIntPoint

record FWhiteNoiseCSManager =
  cachedParams :: FWhiteNoiseCSParameters
  bCachedParamsAreValid :: bool

definition EndRendering :: "FWhiteNoiseCSManager \<Rightarrow> FWhiteNoiseCSManager" where
  "EndRendering this = this"

definition UpdateParameters :: "FWhiteNoiseCSManager \<Rightarrow> FWhiteNoiseCSParameters \<Rightarrow> FWhiteNoiseCSManager" where
  "UpdateParameters this params = this\<lparr>cachedParams := params, bCachedParamsAreValid := True\<rparr>"

text \<open>
  What \<^verbatim>\<open>UpdateResults\<close> reads of its surroundings: which thread it runs on, the global
  \<^verbatim>\<open>GMaxRHIFeatureLevel\<close>, and whether the build compiles the engine's \<^verbatim>\<open>check\<close>
  macro in (\<^verbatim>\<open>DO_CHECK\<close>; without it \<^verbatim>\<open>check\<close> does nothing). A call ends
  with a failure instead of a result when a \<^verbatim>\<open>check\<close> that is compiled in fails, and
  when it follows a null pointer; the failure names the expression.
\<close>

record render_context =
  IsInRenderingThread :: bool
  GMaxRHIFeatureLevel :: ERHIFeatureLevel
  DO_CHECK :: bool

datatype failure = CheckFailed string | NullDereference string | InvalidPointer

text \<open>
  The local \<^verbatim>\<open>ThreadGroupCount\<close> of \<^verbatim>\<open>UpdateResults\<close>, as a function of the size that
  \<^verbatim>\<open>GetRenderTargetSize()\<close> returns.
\<close>

definition ThreadGroupCount_of :: "FIntPoint \<Rightarrow> FIntVector" where
  "ThreadGroupCount_of Size =
     FIntVector (DivideAndRoundUp (X Size) NUM_THREADS_PER_GROUP_DIMENSION)
                (DivideAndRoundUp (Y Size) NUM_THREADS_PER_GROUP_DIMENSION) 1"

text \<open>
  \<^verbatim>\<open>FWhiteNoiseCSManager::UpdateResults\<close>, statement by statement. It returns the manager,
  which a member function could change, and the command list it was handed by reference.
  The global shader map of a feature level is known by the level. The code follows three
  pointers without a test: the resource of the render target, where it reads the output
  texture and again where it reads the format; \<^verbatim>\<open>TextureRHI\<close>, for the format, before
  anything is requested from the pool; and the output texture, for the copy, after the graph
  has been executed. The two descriptors \<^verbatim>\<open>Desc\<close> and \<^verbatim>\<open>DescFloat\<close> are built and
  never used, as in the source. The pool always hands back an element.
\<close>

definition UpdateResults ::
  "render_context \<Rightarrow> FWhiteNoiseCSManager \<Rightarrow> FRHICommandListImmediate
   \<Rightarrow> failure + (FWhiteNoiseCSManager \<times> FRHICommandListImmediate)" where
  "UpdateResults ctx this RHICmdList =
     (if \<not> (bCachedParamsAreValid this \<and> RenderTarget (cachedParams this) \<noteq> None)
      then Inr (this, RHICmdList)
      else if DO_CHECK ctx \<and> \<not> IsInRenderingThread ctx
      then Inl (CheckFailed ''IsInRenderingThread()'')
      else
        let FeatureLevel = GMaxRHIFeatureLevel ctx;
            ShaderMap = FeatureLevel
        in
        case GetRenderTargetResource (the (RenderTarget (cachedParams this))) of
          None \<Rightarrow> Inl (NullDereference ''GetRenderTargetResource()'')
        | Some Resource \<Rightarrow>
        let OutTexture = GetRenderTargetTexture Resource in
        case TextureRHI Resource of
          None \<Rightarrow> Inl (NullDereference ''TextureRHI'')
        | Some TextureRHI_Format \<Rightarrow>
        let TexDesc = Create2DDesc (GetRenderTargetSize (cachedParams this)) TextureRHI_Format
                        FClearValueBinding_None TexCreate_None
                        (TexCreate_ShaderResource \<union> TexCreate_UAV) False;
            Desc = Create2D (GetRenderTargetSize (cachedParams this)) PF_R32_UINT
                     FClearValueBinding_None (TexCreate_ShaderResource \<union> TexCreate_UAV);
            DescFloat = Create2D (GetRenderTargetSize (cachedParams this)) PF_R16F
                     FClearValueBinding_None (TexCreate_ShaderResource \<union> TexCreate_UAV);
            (PooledCustomTexture, RHICmdList) =
               GRenderTargetPool_FindFreeElement RHICmdList TexDesc ''CustomTexture'';
            GraphBuilder = \<lparr>Passes = []\<rparr>;
            CustomTexture = RegisterExternalTexture GraphBuilder PooledCustomTexture ''CustomTexture''
                              ERenderTargetTexture_ShaderResource ERDGTextureFlags_MultiFrame;
            CustomTextureUAV = CreateUAV GraphBuilder CustomTexture;
            WhiteNoiseCS = TShaderMapRef ''FWhiteNoiseCS'' ShaderMap;
            PassParameters = AllocParameters GraphBuilder;
            PassParameters = PassParameters\<lparr>OutputTexture := Some CustomTextureUAV\<rparr>;
            ThreadGroupCount = ThreadGroupCount_of (GetRenderTargetSize (cachedParams this));
            GraphBuilder = AddPass GraphBuilder ''ComputeWhiteNoise'' PassParameters Compute
                             (\<lambda>RHICmdList. FComputeShaderUtils_Dispatch RHICmdList WhiteNoiseCS
                                              PassParameters ThreadGroupCount);
            RHICmdList = Execute GraphBuilder RHICmdList
        in
        case OutTexture of
          None \<Rightarrow> Inl (NullDereference ''OutTexture'')
        | Some OutTexture2D \<Rightarrow>
            Inr (this, RHICmdList_CopyTexture RHICmdList
                         (ShaderResourceTexture PooledCustomTexture) OutTexture2D))"

subsection \<open>The singleton and the render command queue\<close>

text \<open>
  Manager objects live in a store, a pointer is an index into it. The static member
  \<^verbatim>\<open>FWhiteNoiseCSManager::instance\<close> is a pointer or null (\<open>None\<close>), and the file
  initialises it to \<^verbatim>\<open>nullptr\<close>. The queue holds the render commands enqueued and not
  yet run.
\<close>

datatype render_command = CaptureCommand

record world =
  instance_ptr :: "nat option"
  managers :: "FWhiteNoiseCSManager list"
  RenderCommandQueue :: "render_command list"

definition initial_world :: world where
  "initial_world = \<lparr>instance_ptr = None, managers = [], RenderCommandQueue = []\<rparr>"

text \<open>
  Modelled from the spec: \<^verbatim>\<open>FWhiteNoiseCSManager::Get()\<close> is defined in the header
  \<^verbatim>\<open>ComputeShaderDeclaration.h\<close>, which is not among the sources. The spec calls the
  manager a singleton, and the source file starts the static pointer at null, so \<open>Get\<close>
  is the accessor of a singleton built on first use: when the pointer is null it
  constructs a manager, stores its address in the pointer and returns it; otherwise it
  returns the pointer. The first argument is the manager the constructor makes.
\<close>

definition Get :: "FWhiteNoiseCSManager \<Rightarrow> world \<Rightarrow> nat \<times> world" where
  "Get constructed w =
     (case instance_ptr w of
        None \<Rightarrow> (length (managers w),
                 w\<lparr>instance_ptr := Some (length (managers w)), managers := managers w @ [constructed]\<rparr>)
      | Some p \<Rightarrow> (p, w))"

text \<open>The pointers returned by \<open>n\<close> calls of \<open>Get\<close> in a row, and the world after them.\<close>

fun Get_calls :: "FWhiteNoiseCSManager \<Rightarrow> nat \<Rightarrow> world \<Rightarrow> nat list \<times> world" where
  "Get_calls constructed 0 w = ([], w)"
| "Get_calls constructed (Suc n) w =
     (let (p, w1) = Get constructed w; (ps, w2) = Get_calls constructed n w1 in (p # ps, w2))"

text \<open>\<^verbatim>\<open>FWhiteNoiseCSManager::BeginRendering\<close> does not touch the object it is called on.\<close>

definition ENQUEUE_RENDER_COMMAND :: "render_command \<Rightarrow> world \<Rightarrow> world" where
  "ENQUEUE_RENDER_COMMAND cmd w = w\<lparr>RenderCommandQueue := RenderCommandQueue w @ [cmd]\<rparr>"

definition BeginRendering :: "world \<Rightarrow> world" where
  "BeginRendering w = ENQUEUE_RENDER_COMMAND CaptureCommand w"

text \<open>
  The lambda of the command: \<^verbatim>\<open>FWhiteNoiseCSManager::Get()->UpdateResults(RHICmdList)\<close>.
  Following a pointer that is not the address of a manager is a failure.
\<close>

definition CaptureCommand_lambda ::
  "FWhiteNoiseCSManager \<Rightarrow> render_context \<Rightarrow> world \<Rightarrow> FRHICommandListImmediate
   \<Rightarrow> failure + (world \<times> FRHICommandListImmediate)" where
  "CaptureCommand_lambda constructed ctx w RHICmdList =
     (let (p, w) = Get constructed w in
      if p < length (managers w) then
        (case UpdateResults ctx (managers w ! p) RHICmdList of
           Inl f \<Rightarrow> Inl f
         | Inr (this, RHICmdList) \<Rightarrow> Inr (w\<lparr>managers := (managers w)[p := this]\<rparr>, RHICmdList))
      else Inl InvalidPointer)"

text \<open>
  The engine runs a render command on the rendering thread. The feature level and the build
  are what they are in the context given.
\<close>

fun run_render_command ::
  "render_command \<Rightarrow> FWhiteNoiseCSManager \<Rightarrow> render_context \<Rightarrow> world \<Rightarrow> FRHICommandListImmediate
   \<Rightarrow> failure + (world \<times> FRHICommandListImmediate)" where
  "run_render_command CaptureCommand constructed ctx w RHICmdList =
     CaptureCommand_lambda constructed (ctx\<lparr>IsInRenderingThread := True\<rparr>) w RHICmdList"

subsection \<open>Reading the log\<close>

fun pool_requests :: "render_event list \<Rightarrow> (FPooledRenderTargetDesc \<times> string) list" where
  "pool_requests [] = []"
| "pool_requests (FindFreeElement d n # es) = (d, n) # pool_requests es"
| "pool_requests (e # es) = pool_requests es"

fun passes_run :: "render_event list \<Rightarrow> (string \<times> ERDGPassFlags \<times> rhi_command list) list" where
  "passes_run [] = []"
| "passes_run (GraphExecute ps # es) = ps @ passes_run es"
| "passes_run (e # es) = passes_run es"

fun recorded :: "render_event list \<Rightarrow> rhi_command list" where
  "recorded [] = []"
| "recorded (GraphExecute ps # es) = concat (map (\<lambda>(n, f, cs). cs) ps) @ recorded es"
| "recorded (Immediate c # es) = c # recorded es"
| "recorded (e # es) = recorded es"

fun is_Dispatch :: "rhi_command \<Rightarrow> bool" where
  "is_Dispatch (Dispatch s p g) = True"
| "is_Dispatch c = False"

fun is_CopyTexture :: "rhi_command \<Rightarrow> bool" where
  "is_CopyTexture (CopyTexture s d) = True"
| "is_CopyTexture c = False"

fun group_counts :: "rhi_command list \<Rightarrow> FIntVector list" where
  "group_counts [] = []"
| "group_counts (Dispatch s p g # cs) = g # group_counts cs"
| "group_counts (c # cs) = group_counts cs"

text \<open>The thread group counts of the dispatches a call of \<open>UpdateResults\<close> made.\<close>

definition dispatched_group_counts ::
  "failure + (FWhiteNoiseCSManager \<times> FRHICommandListImmediate) \<Rightarrow> FIntVector list" where
  "dispatched_group_counts r = (case r of Inl f \<Rightarrow> [] | Inr (this, evs) \<Rightarrow> group_counts (recorded evs))"

subsection \<open>Sample inputs\<close>

definition sample_resource :: FTextureRenderTargetResource where
  "sample_resource = \<lparr>GetRenderTargetTexture = Some (Texture2DRHI 7), TextureRHI = Some (PF_Other 2)\<rparr>"

definition sample_target :: UTextureRenderTarget2D where
  "sample_target = \<lparr>GetRenderTargetResource = Some sample_resource\<rparr>"

text \<open>
  Render targets that are not ready: one without a resource, one whose resource has no
  \<^verbatim>\<open>TextureRHI\<close>, one whose resource has no render target texture; and a manager with
  valid cached parameters for each.
\<close>

definition target_without_resource :: UTextureRenderTarget2D where
  "target_without_resource = \<lparr>GetRenderTargetResource = None\<rparr>"

definition target_without_TextureRHI :: UTextureRenderTarget2D where
  "target_without_TextureRHI =
     \<lparr>GetRenderTargetResource =
        Some \<lparr>GetRenderTargetTexture = Some (Texture2DRHI 7), TextureRHI = None\<rparr>\<rparr>"

definition target_without_texture :: UTextureRenderTarget2D where
  "target_without_texture =
     \<lparr>GetRenderTargetResource =
        Some \<lparr>GetRenderTargetTexture = None, TextureRHI = Some (PF_Other 2)\<rparr>\<rparr>"

definition manager_of_target :: "UTextureRenderTarget2D \<Rightarrow> FWhiteNoiseCSManager" where
  "manager_of_target rt =
     \<lparr>cachedParams = \<lparr>RenderTarget = Some rt, GetRenderTargetSize = \<lparr>X = 100, Y = 64\<rparr>\<rparr>,
      bCachedParamsAreValid = True\<rparr>"

definition sample_params :: FWhiteNoiseCSParameters where
  "sample_params = \<lparr>RenderTarget = Some sample_target, GetRenderTargetSize = \<lparr>X = 100, Y = 64\<rparr>\<rparr>"

definition sample_manager :: FWhiteNoiseCSManager where
  "sample_manager = \<lparr>cachedParams = sample_params, bCachedParamsAreValid = True\<rparr>"

definition null_params :: FWhiteNoiseCSParameters where
  "null_params = \<lparr>RenderTarget = None, GetRenderTargetSize = \<lparr>X = 0, Y = 0\<rparr>\<rparr>"

definition fresh_manager :: FWhiteNoiseCSManager where
  "fresh_manager = \<lparr>cachedParams = null_params, bCachedParamsAreValid = False\<rparr>"

definition huge_manager :: FWhiteNoiseCSManager where
  "huge_manager =
     \<lparr>cachedParams = \<lparr>RenderTarget = Some sample_target, GetRenderTargetSize = \<lparr>X = 2147483647, Y = 32\<rparr>\<rparr>,
      bCachedParamsAreValid = True\<rparr>"

definition render_thread :: render_context where
  "render_thread = \<lparr>IsInRenderingThread = True, GMaxRHIFeatureLevel = SM5, DO_CHECK = True\<rparr>"

definition game_thread :: render_context where
  "game_thread = \<lparr>IsInRenderingThread = False, GMaxRHIFeatureLevel = SM5, DO_CHECK = True\<rparr>"

text \<open>The game thread in a build without \<^verbatim>\<open>check\<close>.\<close>

definition game_thread_unchecked :: render_context where
  "game_thread_unchecked = \<lparr>IsInRenderingThread = False, GMaxRHIFeatureLevel = SM5, DO_CHECK = False\<rparr>"

definition sample_desc :: FPooledRenderTargetDesc where
  "sample_desc =
     \<lparr>Extent = \<lparr>X = 100, Y = 64\<rparr>, Format = PF_Other 2, ClearValue = FClearValueBinding_None,
      Flags = {}, TargetableFlags = {TexCreate_ShaderResource_bit, TexCreate_UAV_bit},
      bForceSeparateTargetAndShaderResource = False\<rparr>"

definition sample_world :: world where
  "sample_world = \<lparr>instance_ptr = Some 0, managers = [sample_manager], RenderCommandQueue = []\<rparr>"

definition world_without_texture :: world where
  "world_without_texture =
     \<lparr>instance_ptr = Some 0, managers = [manager_of_target target_without_texture],
      RenderCommandQueue = []\<rparr>"

section \<open>Arithmetic of the thread group count\<close>

lemma sint_add31:
  fixes w :: int32
  assumes "0 < sint w" "sint w \<le> 2147483616"
  shows "sint (w + 32 - 1) = sint w + 31"
proof -
  have "w + 32 - 1 = w + 31" by simp
  moreover have "sint (w + 31) = sint w + 31"
    using assms by (simp add: sint_word_ariths signed_take_bit_int_eq_self)
  ultimately show ?thesis by (simp only:)
qed

lemma sint_word_of_int_small:
  assumes "0 \<le> k" "k < 2147483648"
  shows "sint (word_of_int k :: int32) = k"
  using assms by (simp add: sint_sbintrunc' signed_take_bit_int_eq_self)

lemma ceiling_div_32:
  fixes x :: int
  shows "\<lceil>real_of_int x / 32\<rceil> = (x + 31) div 32"
proof (rule ceiling_unique)
  have a: "32 * ((x + 31) div 32) \<le> x + 31" "x + 31 < 32 * ((x + 31) div 32) + 32"
    by linarith+
  from a(1) have "32 * ((x + 31) div 32) - 32 < x" by linarith
  then have "real_of_int (32 * ((x + 31) div 32) - 32) < real_of_int x"
    by (simp only: of_int_less_iff)
  then show "real_of_int ((x + 31) div 32) - 1 < real_of_int x / 32" by simp
  from a(2) have "x \<le> 32 * ((x + 31) div 32)" by linarith
  then have "real_of_int x \<le> real_of_int (32 * ((x + 31) div 32))"
    by (simp only: of_int_le_iff)
  then show "real_of_int x / 32 \<le> real_of_int ((x + 31) div 32)" by simp
qed

lemma DivideAndRoundUp_32:
  fixes w :: int32
  assumes "0 < sint w" "sint w \<le> 2147483616"
  shows "sint (DivideAndRoundUp w NUM_THREADS_PER_GROUP_DIMENSION) = \<lceil>real_of_int (sint w) / 32\<rceil>"
proof -
  have a: "sint (w + 32 - 1) = sint w + 31" using assms by (rule sint_add31)
  have s: "sint (32 :: int32) = 32" by simp
  have q: "0 \<le> (sint w + 31) div 32" "(sint w + 31) div 32 < 2147483648" using assms by auto
  have r: "sgn (sint w + 31) * sgn 32 * (\<bar>sint w + 31\<bar> div \<bar>32\<bar>) = (sint w + 31) div 32"
    using assms by simp
  have "DivideAndRoundUp w 32 = word_of_int (sgn (sint w + 31) * sgn 32 * (\<bar>sint w + 31\<bar> div \<bar>32\<bar>))"
    by (simp only: DivideAndRoundUp_def int32_div_def a s)
  then have "sint (DivideAndRoundUp w 32) = (sint w + 31) div 32"
    using q by (simp only: r sint_word_of_int_small)
  then show ?thesis by (simp only: NUM_THREADS_PER_GROUP_DIMENSION_def ceiling_div_32)
qed

section \<open>The ways through \<open>UpdateResults\<close>\<close>

lemma UpdateResults_skip:
  "\<not> (bCachedParamsAreValid this \<and> RenderTarget (cachedParams this) \<noteq> None)
   \<Longrightarrow> UpdateResults ctx this RHICmdList = Inr (this, RHICmdList)"
  by (simp add: UpdateResults_def)

lemma UpdateResults_check:
  "bCachedParamsAreValid this \<Longrightarrow> RenderTarget (cachedParams this) = Some rt
   \<Longrightarrow> DO_CHECK ctx \<Longrightarrow> \<not> IsInRenderingThread ctx
   \<Longrightarrow> UpdateResults ctx this RHICmdList = Inl (CheckFailed ''IsInRenderingThread()'')"
  by (simp add: UpdateResults_def)

lemma UpdateResults_no_resource:
  "bCachedParamsAreValid this \<Longrightarrow> RenderTarget (cachedParams this) = Some rt
   \<Longrightarrow> \<not> DO_CHECK ctx \<or> IsInRenderingThread ctx
   \<Longrightarrow> GetRenderTargetResource rt = None
   \<Longrightarrow> UpdateResults ctx this RHICmdList = Inl (NullDereference ''GetRenderTargetResource()'')"
  by (auto simp: UpdateResults_def)

lemma UpdateResults_no_TextureRHI:
  "bCachedParamsAreValid this \<Longrightarrow> RenderTarget (cachedParams this) = Some rt
   \<Longrightarrow> \<not> DO_CHECK ctx \<or> IsInRenderingThread ctx
   \<Longrightarrow> GetRenderTargetResource rt = Some Resource \<Longrightarrow> TextureRHI Resource = None
   \<Longrightarrow> UpdateResults ctx this RHICmdList = Inl (NullDereference ''TextureRHI'')"
  by (auto simp: UpdateResults_def)

lemma UpdateResults_no_OutTexture:
  "bCachedParamsAreValid this \<Longrightarrow> RenderTarget (cachedParams this) = Some rt
   \<Longrightarrow> \<not> DO_CHECK ctx \<or> IsInRenderingThread ctx
   \<Longrightarrow> GetRenderTargetResource rt = Some Resource \<Longrightarrow> TextureRHI Resource = Some fmt
   \<Longrightarrow> GetRenderTargetTexture Resource = None
   \<Longrightarrow> UpdateResults ctx this RHICmdList = Inl (NullDereference ''OutTexture'')"
  by (auto simp: UpdateResults_def Let_def split_beta)

lemma UpdateResults_dispatch:
  assumes "bCachedParamsAreValid this" "RenderTarget (cachedParams this) = Some rt"
    "\<not> DO_CHECK ctx \<or> IsInRenderingThread ctx"
    "GetRenderTargetResource rt = Some Resource" "TextureRHI Resource = Some fmt"
    "GetRenderTargetTexture Resource = Some OutTexture"
    and TexDesc: "TexDesc =
       \<lparr>Extent = GetRenderTargetSize (cachedParams this), Format = fmt,
        ClearValue = FClearValueBinding_None, Flags = {},
        TargetableFlags = {TexCreate_ShaderResource_bit, TexCreate_UAV_bit},
        bForceSeparateTargetAndShaderResource = False\<rparr>"
    and Pooled: "Pooled = PooledRenderTarget TexDesc ''CustomTexture''"
  shows "UpdateResults ctx this RHICmdList =
       Inr (this, RHICmdList @
         [FindFreeElement TexDesc ''CustomTexture'',
          GraphExecute
            [(''ComputeWhiteNoise'', Compute,
              [Dispatch (TShaderMapRef ''FWhiteNoiseCS'' (GMaxRHIFeatureLevel ctx))
                 \<lparr>OutputTexture = Some (FRDGTextureUAV (FRDGTexture Pooled ''CustomTexture''
                     ERenderTargetTexture_ShaderResource ERDGTextureFlags_MultiFrame))\<rparr>
                 (ThreadGroupCount_of (GetRenderTargetSize (cachedParams this)))])],
          Immediate (CopyTexture (ShaderResourceTexture Pooled) OutTexture)])"
  using assms(1-6) unfolding TexDesc Pooled
  by (auto simp: UpdateResults_def Let_def GRenderTargetPool_FindFreeElement_def Create2DDesc_def
      RegisterExternalTexture_def CreateUAV_def AllocParameters_def AddPass_def Execute_def
      FComputeShaderUtils_Dispatch_def RHICmdList_CopyTexture_def TexCreate_None_def
      TexCreate_ShaderResource_def TexCreate_UAV_def insert_commute)

lemma UpdateResults_keeps_this:
  "UpdateResults ctx this RHICmdList = Inr (this', RHICmdList') \<Longrightarrow> this' = this"
  by (simp add: UpdateResults_def Let_def split_beta split: if_splits option.splits)

text \<open>The sample manager on a thread that passes the assertion, evaluated.\<close>

lemma UpdateResults_sample:
  assumes "\<not> DO_CHECK ctx \<or> IsInRenderingThread ctx"
  shows "UpdateResults ctx sample_manager [] =
      Inr (sample_manager,
        [FindFreeElement sample_desc ''CustomTexture'',
         GraphExecute
           [(''ComputeWhiteNoise'', Compute,
             [Dispatch (TShaderMapRef ''FWhiteNoiseCS'' (GMaxRHIFeatureLevel ctx))
                \<lparr>OutputTexture = Some (FRDGTextureUAV (FRDGTexture
                    (PooledRenderTarget sample_desc ''CustomTexture'') ''CustomTexture''
                    ERenderTargetTexture_ShaderResource ERDGTextureFlags_MultiFrame))\<rparr>
                (FIntVector 4 2 1)])],
         Immediate (CopyTexture
           (ShaderResourceTexture (PooledRenderTarget sample_desc ''CustomTexture''))
           (Texture2DRHI 7))])"
proof -
  have count: "ThreadGroupCount_of \<lparr>X = 100, Y = 64\<rparr> = FIntVector 4 2 1"
    by (simp add: ThreadGroupCount_of_def DivideAndRoundUp_def int32_div_def
        NUM_THREADS_PER_GROUP_DIMENSION_def)
  have pre: "bCachedParamsAreValid sample_manager"
    "RenderTarget (cachedParams sample_manager) = Some sample_target"
    "GetRenderTargetResource sample_target = Some sample_resource"
    "TextureRHI sample_resource = Some (PF_Other 2)"
    "GetRenderTargetTexture sample_resource = Some (Texture2DRHI 7)"
    by (simp_all add: sample_manager_def sample_params_def sample_target_def sample_resource_def)
  have size: "GetRenderTargetSize (cachedParams sample_manager) = \<lparr>X = 100, Y = 64\<rparr>"
    by (simp add: sample_manager_def sample_params_def)
  note run = UpdateResults_dispatch [OF pre(1,2) assms pre(3-5) refl refl, of "[]"]
  show ?thesis unfolding run size count sample_desc_def by simp
qed

section \<open>The singleton accessor\<close>

lemma Get_twice: "fst (Get c (snd (Get c w))) = fst (Get c w)"
  by (simp add: Get_def split: option.splits)

lemma Get_set: "instance_ptr (snd (Get c w)) = Some (fst (Get c w))"
  by (simp add: Get_def split: option.splits)

lemma Get_calls_set:
  "instance_ptr w = Some p \<Longrightarrow> Get_calls c n w = (replicate n p, w)"
  by (induction n) (simp_all add: Get_def)

section \<open>The compilation hooks and the registration\<close>

text \<open>
  C4. \<open>ShouldCompilePermutation\<close> answers for a platform exactly what the engine answers
  to "does this platform support feature level SM5"; the permutation id has no part in it.
\<close>

theorem ShouldCompilePermutation_is_SM5_support:
  "ShouldCompilePermutation IsFeatureLevelSupported Parameters
     = IsFeatureLevelSupported (Platform Parameters) SM5
   \<and> ShouldCompilePermutation IsFeatureLevelSupported (Parameters\<lparr>PermutationId := k\<rparr>)
     = ShouldCompilePermutation IsFeatureLevelSupported Parameters"
  by (simp add: ShouldCompilePermutation_def)

theorem ShouldCompilePermutation_is_SM5_support_witness:
  "ShouldCompilePermutation (\<lambda>p l. l = SM5 \<and> p = 3) \<lparr>Platform = 3, PermutationId = 5\<rparr>
   \<and> \<not> ShouldCompilePermutation (\<lambda>p l. l = SM5 \<and> p = 3) \<lparr>Platform = 4, PermutationId = 5\<rparr>"
  using ShouldCompilePermutation_is_SM5_support
          [of "\<lambda>p l. l = SM5 \<and> p = 3" "\<lparr>Platform = 3, PermutationId = 5\<rparr>" 0]
        ShouldCompilePermutation_is_SM5_support
          [of "\<lambda>p l. l = SM5 \<and> p = 3" "\<lparr>Platform = 4, PermutationId = 5\<rparr>" 0]
  by simp

text \<open>
  C5. For every environment, \<open>ModifyCompilationEnvironment\<close> returns what the base class
  hook made of the environment with three definitions set in it and nothing else changed:
  \<open>THREADGROUPSIZE_X\<close> and \<open>THREADGROUPSIZE_Y\<close> to \<open>NUM_THREADS_PER_GROUP_DIMENSION\<close>,
  which is 32, and \<open>THREADGROUPSIZE_Z\<close> to 1. The thread group count of the dispatch
  divides by the same constant.
\<close>

theorem ModifyCompilationEnvironment_sets_three_defines:
  "ModifyCompilationEnvironment base Parameters OutEnvironment =
     (base Parameters OutEnvironment)
       \<lparr>Definitions := (Definitions (base Parameters OutEnvironment))
          (''THREADGROUPSIZE_X'' \<mapsto> DefineInt NUM_THREADS_PER_GROUP_DIMENSION,
           ''THREADGROUPSIZE_Y'' \<mapsto> DefineInt NUM_THREADS_PER_GROUP_DIMENSION,
           ''THREADGROUPSIZE_Z'' \<mapsto> DefineInt 1)\<rparr>
   \<and> NUM_THREADS_PER_GROUP_DIMENSION = 32
   \<and> ThreadGroupCount_of Size =
       FIntVector (DivideAndRoundUp (X Size) NUM_THREADS_PER_GROUP_DIMENSION)
                  (DivideAndRoundUp (Y Size) NUM_THREADS_PER_GROUP_DIMENSION) 1"
  by (simp add: ModifyCompilationEnvironment_def SetDefine_def Let_def
      NUM_THREADS_PER_GROUP_DIMENSION_def ThreadGroupCount_of_def)

theorem ModifyCompilationEnvironment_sets_three_defines_witness:
  "Definitions (ModifyCompilationEnvironment (\<lambda>P E. E) \<lparr>Platform = 3, PermutationId = 0\<rparr>
      \<lparr>Definitions = [''THREADGROUPSIZE_X'' \<mapsto> DefineInt 8, ''OTHER'' \<mapsto> DefineText ''a'']\<rparr>)
   = [''OTHER'' \<mapsto> DefineText ''a'', ''THREADGROUPSIZE_X'' \<mapsto> DefineInt 32,
      ''THREADGROUPSIZE_Y'' \<mapsto> DefineInt 32, ''THREADGROUPSIZE_Z'' \<mapsto> DefineInt 1]"
  using ModifyCompilationEnvironment_sets_three_defines
          [of "\<lambda>P E. E" "\<lparr>Platform = 3, PermutationId = 0\<rparr>"
              "\<lparr>Definitions = [''THREADGROUPSIZE_X'' \<mapsto> DefineInt 8, ''OTHER'' \<mapsto> DefineText ''a'']\<rparr>"]
  by (auto simp: fun_eq_iff)

text \<open>
  C7. Loading the module adds one shader type to the engine's registry, whatever was
  registered before: the global shader \<open>FWhiteNoiseCS\<close>, with the shader file
  \<open>/CustomShaders/WhiteNoiseCS.usf\<close>, the entry point \<open>MainComputeShader\<close> and the
  frequency \<open>SF_Compute\<close>.
\<close>

theorem module_registers_one_compute_shader:
  "module_static_init registry =
     registry @ [\<lparr>ShaderType = ''FWhiteNoiseCS'', ShaderPath = ''/CustomShaders/WhiteNoiseCS.usf'',
                  FunctionName = ''MainComputeShader'', Frequency = SF_Compute\<rparr>]
   \<and> length (module_static_init registry) = length registry + 1"
  by (simp add: module_static_init_def IMPLEMENT_GLOBAL_SHADER_def)

theorem module_registers_one_compute_shader_witness:
  "map ShaderType (module_static_init []) = [''FWhiteNoiseCS'']
   \<and> map Frequency (module_static_init []) = [SF_Compute]"
  using module_registers_one_compute_shader [of "[]"] by simp

section \<open>The manager's cached parameters\<close>

text \<open>
  C8. \<open>UpdateParameters\<close> stores its argument as the cached parameters and sets the
  validity flag, whatever the argument is. With a null render target in the argument the
  flag is set all the same, and it is \<open>UpdateResults\<close> that then finds the null pointer and
  returns without recording anything.
\<close>

theorem UpdateParameters_caches_any_argument:
  "cachedParams (UpdateParameters this p) = p
   \<and> bCachedParamsAreValid (UpdateParameters this p)
   \<and> (RenderTarget p = None \<longrightarrow>
        bCachedParamsAreValid (UpdateParameters this p)
        \<and> RenderTarget (cachedParams (UpdateParameters this p)) = None
        \<and> UpdateResults ctx (UpdateParameters this p) RHICmdList
            = Inr (UpdateParameters this p, RHICmdList))"
  by (simp add: UpdateParameters_def UpdateResults_def)

theorem UpdateParameters_caches_any_argument_witness:
  "RenderTarget null_params = None
   \<and> UpdateParameters fresh_manager null_params
       = \<lparr>cachedParams = null_params, bCachedParamsAreValid = True\<rparr>
   \<and> UpdateResults render_thread (UpdateParameters fresh_manager null_params) []
       = Inr (\<lparr>cachedParams = null_params, bCachedParamsAreValid = True\<rparr>, [])"
  using UpdateParameters_caches_any_argument [of fresh_manager null_params render_thread "[]"]
  by (simp add: null_params_def fresh_manager_def UpdateParameters_def)

text \<open>
  C10. \<open>EndRendering\<close> returns the manager as it was. \<open>UpdateResults\<close>, when it returns,
  returns the manager as it was, on both of its returning paths. \<open>BeginRendering\<close> changes
  no manager object either, so of the four member functions only \<open>UpdateParameters\<close>
  writes \<open>cachedParams\<close> and \<open>bCachedParamsAreValid\<close>.
\<close>

theorem cached_state_written_by_UpdateParameters_only:
  "EndRendering this = this
   \<and> (\<forall>this' RHICmdList'.
         UpdateResults ctx this RHICmdList = Inr (this', RHICmdList') \<longrightarrow>
           cachedParams this' = cachedParams this
           \<and> bCachedParamsAreValid this' = bCachedParamsAreValid this
           \<and> this' = this)
   \<and> managers (BeginRendering w) = managers w
   \<and> instance_ptr (BeginRendering w) = instance_ptr w"
  by (auto simp: EndRendering_def BeginRendering_def ENQUEUE_RENDER_COMMAND_def
      dest: UpdateResults_keeps_this)

theorem cached_state_written_by_UpdateParameters_only_witness:
  "EndRendering sample_manager = sample_manager
   \<and> (\<exists>evs. UpdateResults render_thread sample_manager [] = Inr (sample_manager, evs) \<and> evs \<noteq> [])
   \<and> UpdateResults render_thread fresh_manager [] = Inr (fresh_manager, [])
   \<and> managers (BeginRendering sample_world) = [sample_manager]"
proof -
  have d: "\<exists>evs. UpdateResults render_thread sample_manager [] = Inr (sample_manager, evs) \<and> evs \<noteq> []"
    using UpdateResults_sample [of render_thread] by (simp add: render_thread_def)
  have s: "UpdateResults render_thread fresh_manager [] = Inr (fresh_manager, [])"
    by (simp add: UpdateResults_skip fresh_manager_def)
  from cached_state_written_by_UpdateParameters_only
         [of sample_manager render_thread "[]" sample_world]
  have "EndRendering sample_manager = sample_manager"
    and "managers (BeginRendering sample_world) = managers sample_world"
    by simp_all
  with d s show ?thesis by (simp add: sample_world_def)
qed

section \<open>Reading a log that was extended\<close>

lemma recorded_append: "recorded (es @ fs) = recorded es @ recorded fs"
  by (induction es rule: recorded.induct) simp_all

lemma group_counts_append: "group_counts (cs @ ds) = group_counts cs @ group_counts ds"
  by (induction cs rule: group_counts.induct) simp_all

section \<open>The render-thread callback\<close>

text \<open>
  C2, with the pointers the code does not test. \<open>UpdateResults\<close> returns with the
  command list as it was, so without a pool request, a pass, a dispatch or a copy, exactly
  when the validity flag is false or the render target is null. With valid parameters and
  a render target it makes no other test and has no other early return. It runs the
  dispatch path to its end (one pool request, one pass, one dispatch, one copy) exactly
  when the assertion on the thread passes or is compiled out and the resource of the render
  target, the \<open>TextureRHI\<close> of the resource and its render target texture are all there;
  in every other case the call ends in a failure.
\<close>

theorem UpdateResults_returns_early_iff_invalid_or_null:
  "((UpdateResults ctx this RHICmdList = Inr (this, RHICmdList))
      = (\<not> bCachedParamsAreValid this \<or> RenderTarget (cachedParams this) = None))
   \<and> (bCachedParamsAreValid this \<and> RenderTarget (cachedParams this) = Some rt \<longrightarrow>
        ((\<exists>evs. UpdateResults ctx this RHICmdList = Inr (this, RHICmdList @ evs)
                \<and> length (pool_requests evs) = 1
                \<and> length (passes_run evs) = 1
                \<and> length (filter is_Dispatch (recorded evs)) = 1
                \<and> length (filter is_CopyTexture (recorded evs)) = 1)
          = ((\<not> DO_CHECK ctx \<or> IsInRenderingThread ctx)
             \<and> (\<exists>Resource fmt OutTexture. GetRenderTargetResource rt = Some Resource
                   \<and> TextureRHI Resource = Some fmt
                   \<and> GetRenderTargetTexture Resource = Some OutTexture)))
        \<and> ((\<exists>f. UpdateResults ctx this RHICmdList = Inl f)
          = (\<not> ((\<not> DO_CHECK ctx \<or> IsInRenderingThread ctx)
             \<and> (\<exists>Resource fmt OutTexture. GetRenderTargetResource rt = Some Resource
                   \<and> TextureRHI Resource = Some fmt
                   \<and> GetRenderTargetTexture Resource = Some OutTexture)))))"
proof (cases "bCachedParamsAreValid this \<and> RenderTarget (cachedParams this) \<noteq> None")
  case False
  then show ?thesis using UpdateResults_skip [of this ctx RHICmdList] by auto
next
  case guard: True
  then have valid: "bCachedParamsAreValid this" by simp
  have early: "(UpdateResults ctx this RHICmdList = Inr (this, RHICmdList))
      = (\<not> bCachedParamsAreValid this \<or> RenderTarget (cachedParams this) = None)"
    using guard by (auto simp: UpdateResults_def Let_def split_beta
        GRenderTargetPool_FindFreeElement_def Execute_def RHICmdList_CopyTexture_def
        split: option.splits)
  have path: "((\<exists>evs. UpdateResults ctx this RHICmdList = Inr (this, RHICmdList @ evs)
                \<and> length (pool_requests evs) = 1
                \<and> length (passes_run evs) = 1
                \<and> length (filter is_Dispatch (recorded evs)) = 1
                \<and> length (filter is_CopyTexture (recorded evs)) = 1)
          = ((\<not> DO_CHECK ctx \<or> IsInRenderingThread ctx)
             \<and> (\<exists>Resource fmt OutTexture. GetRenderTargetResource rt = Some Resource
                   \<and> TextureRHI Resource = Some fmt
                   \<and> GetRenderTargetTexture Resource = Some OutTexture)))
        \<and> ((\<exists>f. UpdateResults ctx this RHICmdList = Inl f)
          = (\<not> ((\<not> DO_CHECK ctx \<or> IsInRenderingThread ctx)
             \<and> (\<exists>Resource fmt OutTexture. GetRenderTargetResource rt = Some Resource
                   \<and> TextureRHI Resource = Some fmt
                   \<and> GetRenderTargetTexture Resource = Some OutTexture))))"
    if rt: "RenderTarget (cachedParams this) = Some rt"
  proof (cases "\<not> DO_CHECK ctx \<or> IsInRenderingThread ctx")
    case False
    then have "UpdateResults ctx this RHICmdList = Inl (CheckFailed ''IsInRenderingThread()'')"
      using UpdateResults_check [OF valid rt, of ctx RHICmdList] by simp
    with False show ?thesis by simp
  next
    case passes: True
    show ?thesis
    proof (cases "GetRenderTargetResource rt")
      case None
      with passes show ?thesis
        using UpdateResults_no_resource [OF valid rt passes None, of RHICmdList] by simp
    next
      case (Some Resource)
      show ?thesis
      proof (cases "TextureRHI Resource")
        case None
        with passes Some show ?thesis
          using UpdateResults_no_TextureRHI [OF valid rt passes Some None, of RHICmdList] by simp
      next
        case fmt: (Some fmt)
        show ?thesis
        proof (cases "GetRenderTargetTexture Resource")
          case None
          with passes Some fmt show ?thesis
            using UpdateResults_no_OutTexture [OF valid rt passes Some fmt None, of RHICmdList]
            by simp
        next
          case out: (Some OutTexture)
          note run = UpdateResults_dispatch [OF valid rt passes Some fmt out refl refl, of RHICmdList]
          from passes Some fmt out show ?thesis by (simp add: run)
        qed
      qed
    qed
  qed
  from early path show ?thesis by blast
qed

theorem UpdateResults_returns_early_iff_invalid_or_null_witness:
  "UpdateResults render_thread fresh_manager [] = Inr (fresh_manager, [])
   \<and> UpdateResults render_thread (UpdateParameters fresh_manager null_params) []
       = Inr (UpdateParameters fresh_manager null_params, [])
   \<and> UpdateResults render_thread sample_manager [] \<noteq> Inr (sample_manager, [])
   \<and> (\<exists>evs. UpdateResults render_thread sample_manager [] = Inr (sample_manager, evs)
         \<and> length (pool_requests evs) = 1 \<and> length (passes_run evs) = 1
         \<and> length (filter is_Dispatch (recorded evs)) = 1
         \<and> length (filter is_CopyTexture (recorded evs)) = 1)
   \<and> (\<exists>evs. UpdateResults game_thread_unchecked sample_manager [] = Inr (sample_manager, evs)
         \<and> length (filter is_Dispatch (recorded evs)) = 1)
   \<and> (\<exists>f. UpdateResults game_thread sample_manager [] = Inl f)
   \<and> (\<exists>f. UpdateResults render_thread (manager_of_target target_without_TextureRHI) [] = Inl f)"
proof -
  note C2 = UpdateResults_returns_early_iff_invalid_or_null
  have a: "UpdateResults render_thread fresh_manager [] = Inr (fresh_manager, [])"
    using C2 [of render_thread fresh_manager "[]"] by (simp add: fresh_manager_def)
  have b: "UpdateResults render_thread (UpdateParameters fresh_manager null_params) []
       = Inr (UpdateParameters fresh_manager null_params, [])"
    using C2 [of render_thread "UpdateParameters fresh_manager null_params" "[]"]
    by (simp add: UpdateParameters_def null_params_def)
  have guard: "bCachedParamsAreValid sample_manager"
    "RenderTarget (cachedParams sample_manager) = Some sample_target"
    by (simp_all add: sample_manager_def sample_params_def)
  have ready: "\<exists>Resource fmt OutTexture. GetRenderTargetResource sample_target = Some Resource
      \<and> TextureRHI Resource = Some fmt \<and> GetRenderTargetTexture Resource = Some OutTexture"
    by (simp add: sample_target_def sample_resource_def)
  have c: "UpdateResults render_thread sample_manager [] \<noteq> Inr (sample_manager, [])"
    using C2 [of render_thread sample_manager "[]"] guard by simp
  have on_thread: "\<not> DO_CHECK render_thread \<or> IsInRenderingThread render_thread"
    by (simp add: render_thread_def)
  have d: "\<exists>evs. UpdateResults render_thread sample_manager [] = Inr (sample_manager, evs)
         \<and> length (pool_requests evs) = 1 \<and> length (passes_run evs) = 1
         \<and> length (filter is_Dispatch (recorded evs)) = 1
         \<and> length (filter is_CopyTexture (recorded evs)) = 1"
    using C2 [of render_thread sample_manager "[]" sample_target] guard ready on_thread
    by simp
  have no_check: "\<not> DO_CHECK game_thread_unchecked \<or> IsInRenderingThread game_thread_unchecked"
    by (simp add: game_thread_unchecked_def)
  have "\<exists>evs. UpdateResults game_thread_unchecked sample_manager [] = Inr (sample_manager, evs)
         \<and> length (pool_requests evs) = 1 \<and> length (passes_run evs) = 1
         \<and> length (filter is_Dispatch (recorded evs)) = 1
         \<and> length (filter is_CopyTexture (recorded evs)) = 1"
    using C2 [of game_thread_unchecked sample_manager "[]" sample_target] guard ready no_check
    by simp
  then have e: "\<exists>evs. UpdateResults game_thread_unchecked sample_manager [] = Inr (sample_manager, evs)
         \<and> length (filter is_Dispatch (recorded evs)) = 1"
    by blast
  have off_thread: "\<not> (\<not> DO_CHECK game_thread \<or> IsInRenderingThread game_thread)"
    by (simp add: game_thread_def)
  have f: "\<exists>f. UpdateResults game_thread sample_manager [] = Inl f"
    using C2 [of game_thread sample_manager "[]" sample_target] guard off_thread by simp
  have guard': "bCachedParamsAreValid (manager_of_target target_without_TextureRHI)"
    "RenderTarget (cachedParams (manager_of_target target_without_TextureRHI))
       = Some target_without_TextureRHI"
    by (simp_all add: manager_of_target_def)
  have not_ready: "\<not> (\<exists>Resource fmt OutTexture.
      GetRenderTargetResource target_without_TextureRHI = Some Resource
      \<and> TextureRHI Resource = Some fmt \<and> GetRenderTargetTexture Resource = Some OutTexture)"
    by (simp add: target_without_TextureRHI_def)
  have g: "\<exists>f. UpdateResults render_thread (manager_of_target target_without_TextureRHI) [] = Inl f"
    using C2 [of render_thread "manager_of_target target_without_TextureRHI" "[]"
                 target_without_TextureRHI] guard' not_ready
    by simp
  from a b c d e f g show ?thesis by blast
qed

text \<open>
  C2 where the render target has no resource: the parameters are valid and the render
  target is not null, and the call, on the rendering thread, ends where it follows the null
  resource pointer, before any request to the pool; nothing is dispatched or copied.
\<close>

theorem UpdateResults_fails_on_target_without_resource:
  "bCachedParamsAreValid (manager_of_target target_without_resource)
   \<and> RenderTarget (cachedParams (manager_of_target target_without_resource))
       = Some target_without_resource
   \<and> IsInRenderingThread render_thread
   \<and> UpdateResults render_thread (manager_of_target target_without_resource) []
       = Inl (NullDereference ''GetRenderTargetResource()'')"
  by (simp add: UpdateResults_def manager_of_target_def target_without_resource_def
      render_thread_def)

text \<open>
  C3, for a render target that is ready. With valid cached parameters and a render
  target whose resource, \<open>TextureRHI\<close> and render target texture are there, on the
  rendering thread, \<open>UpdateResults\<close> adds to the command list's log, in this order: a
  request to the render target pool for a texture of the size of the render target (and of
  its format); the execution of a render graph that has exactly one pass, the compute pass
  \<open>ComputeWhiteNoise\<close>, in which the white-noise shader is dispatched, writing to the
  pooled texture; a copy of the pooled texture to the render target's texture.
\<close>

theorem UpdateResults_allocates_runs_one_pass_and_copies:
  assumes "bCachedParamsAreValid this" and "RenderTarget (cachedParams this) = Some rt"
    and "GetRenderTargetResource rt = Some Resource"
    and "TextureRHI Resource = Some fmt"
    and "GetRenderTargetTexture Resource = Some OutTexture"
    and "IsInRenderingThread ctx"
  shows "\<exists>TexDesc Pooled PassParameters.
      UpdateResults ctx this RHICmdList =
        Inr (this, RHICmdList @
          [FindFreeElement TexDesc ''CustomTexture'',
           GraphExecute
             [(''ComputeWhiteNoise'', Compute,
               [Dispatch (TShaderMapRef ''FWhiteNoiseCS'' (GMaxRHIFeatureLevel ctx)) PassParameters
                  (ThreadGroupCount_of (GetRenderTargetSize (cachedParams this)))])],
           Immediate (CopyTexture (ShaderResourceTexture Pooled) OutTexture)])
      \<and> Extent TexDesc = GetRenderTargetSize (cachedParams this)
      \<and> Format TexDesc = fmt
      \<and> Pooled = PooledRenderTarget TexDesc ''CustomTexture''
      \<and> OutputTexture PassParameters =
          Some (FRDGTextureUAV (FRDGTexture Pooled ''CustomTexture''
                  ERenderTargetTexture_ShaderResource ERDGTextureFlags_MultiFrame))"
proof -
  define TexDesc where "TexDesc =
       \<lparr>Extent = GetRenderTargetSize (cachedParams this), Format = fmt,
        ClearValue = FClearValueBinding_None, Flags = {},
        TargetableFlags = {TexCreate_ShaderResource_bit, TexCreate_UAV_bit},
        bForceSeparateTargetAndShaderResource = False\<rparr>"
  define Pooled where "Pooled = PooledRenderTarget TexDesc ''CustomTexture''"
  from assms(6) have passes: "\<not> DO_CHECK ctx \<or> IsInRenderingThread ctx" by simp
  note run = UpdateResults_dispatch
    [OF assms(1,2) passes assms(3-5) TexDesc_def Pooled_def, of RHICmdList]
  have "Extent TexDesc = GetRenderTargetSize (cachedParams this)"
    and "Format TexDesc = fmt"
    by (simp_all add: TexDesc_def)
  with run Pooled_def show ?thesis by fastforce
qed

theorem UpdateResults_allocates_runs_one_pass_and_copies_witness:
  "UpdateResults render_thread sample_manager [] =
     Inr (sample_manager,
       [FindFreeElement sample_desc ''CustomTexture'',
        GraphExecute
          [(''ComputeWhiteNoise'', Compute,
            [Dispatch (TShaderMapRef ''FWhiteNoiseCS'' SM5)
               \<lparr>OutputTexture = Some (FRDGTextureUAV (FRDGTexture
                   (PooledRenderTarget sample_desc ''CustomTexture'') ''CustomTexture''
                   ERenderTargetTexture_ShaderResource ERDGTextureFlags_MultiFrame))\<rparr>
               (FIntVector 4 2 1)])],
        Immediate (CopyTexture
          (ShaderResourceTexture (PooledRenderTarget sample_desc ''CustomTexture''))
          (Texture2DRHI 7))])"
proof -
  have pre: "bCachedParamsAreValid sample_manager"
    "RenderTarget (cachedParams sample_manager) = Some sample_target"
    "GetRenderTargetResource sample_target = Some sample_resource"
    "TextureRHI sample_resource = Some (PF_Other 2)"
    "GetRenderTargetTexture sample_resource = Some (Texture2DRHI 7)"
    "IsInRenderingThread render_thread"
    by (simp_all add: sample_manager_def sample_params_def sample_target_def
        sample_resource_def render_thread_def)
  from UpdateResults_allocates_runs_one_pass_and_copies [OF pre, of "[]"]
  obtain TexDesc Pooled PassParameters where
    run: "UpdateResults render_thread sample_manager [] =
        Inr (sample_manager,
          [FindFreeElement TexDesc ''CustomTexture'',
           GraphExecute
             [(''ComputeWhiteNoise'', Compute,
               [Dispatch (TShaderMapRef ''FWhiteNoiseCS'' (GMaxRHIFeatureLevel render_thread))
                  PassParameters
                  (ThreadGroupCount_of (GetRenderTargetSize (cachedParams sample_manager)))])],
           Immediate (CopyTexture (ShaderResourceTexture Pooled) (Texture2DRHI 7))])"
    by auto
  have "GMaxRHIFeatureLevel render_thread = SM5" by (simp add: render_thread_def)
  with run UpdateResults_sample [of render_thread] show ?thesis
    by (simp add: render_thread_def)
qed

text \<open>
  C3 where the resource of the render target has no \<open>TextureRHI\<close>: the parameters are
  valid and the render target is not null, and the call, on the rendering thread, ends
  where it asks the null \<open>TextureRHI\<close> for its format; no texture is requested from the
  pool, no graph is built or executed, nothing is copied.
\<close>

theorem UpdateResults_fails_on_target_without_TextureRHI:
  "bCachedParamsAreValid (manager_of_target target_without_TextureRHI)
   \<and> RenderTarget (cachedParams (manager_of_target target_without_TextureRHI))
       = Some target_without_TextureRHI
   \<and> IsInRenderingThread render_thread
   \<and> UpdateResults render_thread (manager_of_target target_without_TextureRHI) []
       = Inl (NullDereference ''TextureRHI'')"
  by (simp add: UpdateResults_def manager_of_target_def target_without_TextureRHI_def
      render_thread_def)

section \<open>The render command\<close>

text \<open>
  C1, for a render target that is ready. A call of \<open>BeginRendering\<close> adds exactly one
  render command to the queue and changes nothing else. When that command runs (the engine
  runs it on the rendering thread) and the manager the static pointer holds has valid
  cached parameters with a render target whose resource, \<open>TextureRHI\<close> and render target
  texture are there, the command leaves the world as it was and adds to the log, in this
  order: one pool request; the execution of the graph in which the white-noise shader is
  dispatched once, on the pooled texture; then one copy of the pooled texture to the texture
  of the render target.
\<close>

theorem BeginRendering_enqueues_one_dispatching_command:
  "BeginRendering w = w\<lparr>RenderCommandQueue := RenderCommandQueue w @ [CaptureCommand]\<rparr>
   \<and> length (RenderCommandQueue (BeginRendering w)) = length (RenderCommandQueue w) + 1
   \<and> (instance_ptr w' = Some p \<and> p < length (managers w')
        \<and> bCachedParamsAreValid (managers w' ! p)
        \<and> RenderTarget (cachedParams (managers w' ! p)) = Some rt
        \<and> GetRenderTargetResource rt = Some Resource
        \<and> TextureRHI Resource = Some fmt
        \<and> GetRenderTargetTexture Resource = Some OutTexture \<longrightarrow>
       (\<exists>TexDesc Pooled.
          run_render_command CaptureCommand constructed ctx w' RHICmdList
            = Inr (w', RHICmdList @
                [FindFreeElement TexDesc ''CustomTexture'',
                 GraphExecute
                   [(''ComputeWhiteNoise'', Compute,
                     [Dispatch (TShaderMapRef ''FWhiteNoiseCS'' (GMaxRHIFeatureLevel ctx))
                        \<lparr>OutputTexture = Some (FRDGTextureUAV (FRDGTexture Pooled ''CustomTexture''
                            ERenderTargetTexture_ShaderResource ERDGTextureFlags_MultiFrame))\<rparr>
                        (ThreadGroupCount_of (GetRenderTargetSize (cachedParams (managers w' ! p))))])],
                 Immediate (CopyTexture (ShaderResourceTexture Pooled) OutTexture)])
          \<and> Pooled = PooledRenderTarget TexDesc ''CustomTexture''
          \<and> Extent TexDesc = GetRenderTargetSize (cachedParams (managers w' ! p))
          \<and> Format TexDesc = fmt))"
proof (intro conjI impI)
  show "BeginRendering w = w\<lparr>RenderCommandQueue := RenderCommandQueue w @ [CaptureCommand]\<rparr>"
    by (simp add: BeginRendering_def ENQUEUE_RENDER_COMMAND_def)
  show "length (RenderCommandQueue (BeginRendering w)) = length (RenderCommandQueue w) + 1"
    by (simp add: BeginRendering_def ENQUEUE_RENDER_COMMAND_def)
next
  assume pre: "instance_ptr w' = Some p \<and> p < length (managers w')
        \<and> bCachedParamsAreValid (managers w' ! p)
        \<and> RenderTarget (cachedParams (managers w' ! p)) = Some rt
        \<and> GetRenderTargetResource rt = Some Resource
        \<and> TextureRHI Resource = Some fmt
        \<and> GetRenderTargetTexture Resource = Some OutTexture"
  let ?ctx = "ctx\<lparr>IsInRenderingThread := True\<rparr>"
  define TexDesc where "TexDesc =
       \<lparr>Extent = GetRenderTargetSize (cachedParams (managers w' ! p)), Format = fmt,
        ClearValue = FClearValueBinding_None, Flags = {},
        TargetableFlags = {TexCreate_ShaderResource_bit, TexCreate_UAV_bit},
        bForceSeparateTargetAndShaderResource = False\<rparr>"
  define Pooled where "Pooled = PooledRenderTarget TexDesc ''CustomTexture''"
  have got: "Get constructed w' = (p, w')"
    using pre by (simp add: Get_def)
  have on_thread: "\<not> DO_CHECK ?ctx \<or> IsInRenderingThread ?ctx" by simp
  from pre have valid: "bCachedParamsAreValid (managers w' ! p)"
    and rt: "RenderTarget (cachedParams (managers w' ! p)) = Some rt"
    and ready: "GetRenderTargetResource rt = Some Resource" "TextureRHI Resource = Some fmt"
      "GetRenderTargetTexture Resource = Some OutTexture"
    by simp_all
  note run = UpdateResults_dispatch
    [OF valid rt on_thread ready TexDesc_def Pooled_def, of RHICmdList]
  have same: "w'\<lparr>managers := (managers w')[p := managers w' ! p]\<rparr> = w'"
    by simp
  have "run_render_command CaptureCommand constructed ctx w' RHICmdList
            = Inr (w', RHICmdList @
                [FindFreeElement TexDesc ''CustomTexture'',
                 GraphExecute
                   [(''ComputeWhiteNoise'', Compute,
                     [Dispatch (TShaderMapRef ''FWhiteNoiseCS'' (GMaxRHIFeatureLevel ctx))
                        \<lparr>OutputTexture = Some (FRDGTextureUAV (FRDGTexture Pooled ''CustomTexture''
                            ERenderTargetTexture_ShaderResource ERDGTextureFlags_MultiFrame))\<rparr>
                        (ThreadGroupCount_of (GetRenderTargetSize (cachedParams (managers w' ! p))))])],
                 Immediate (CopyTexture (ShaderResourceTexture Pooled) OutTexture)])"
    using pre by (simp add: CaptureCommand_lambda_def got run same)
  moreover have "Extent TexDesc = GetRenderTargetSize (cachedParams (managers w' ! p))"
    "Format TexDesc = fmt"
    by (simp_all add: TexDesc_def)
  ultimately show "\<exists>TexDesc Pooled.
          run_render_command CaptureCommand constructed ctx w' RHICmdList
            = Inr (w', RHICmdList @
                [FindFreeElement TexDesc ''CustomTexture'',
                 GraphExecute
                   [(''ComputeWhiteNoise'', Compute,
                     [Dispatch (TShaderMapRef ''FWhiteNoiseCS'' (GMaxRHIFeatureLevel ctx))
                        \<lparr>OutputTexture = Some (FRDGTextureUAV (FRDGTexture Pooled ''CustomTexture''
                            ERenderTargetTexture_ShaderResource ERDGTextureFlags_MultiFrame))\<rparr>
                        (ThreadGroupCount_of (GetRenderTargetSize (cachedParams (managers w' ! p))))])],
                 Immediate (CopyTexture (ShaderResourceTexture Pooled) OutTexture)])
          \<and> Pooled = PooledRenderTarget TexDesc ''CustomTexture''
          \<and> Extent TexDesc = GetRenderTargetSize (cachedParams (managers w' ! p))
          \<and> Format TexDesc = fmt"
    using Pooled_def by blast
qed

theorem BeginRendering_enqueues_one_dispatching_command_witness:
  "RenderCommandQueue (BeginRendering sample_world) = [CaptureCommand]
   \<and> run_render_command CaptureCommand fresh_manager game_thread (BeginRendering sample_world) []
       = Inr (BeginRendering sample_world,
           [FindFreeElement sample_desc ''CustomTexture'',
            GraphExecute
              [(''ComputeWhiteNoise'', Compute,
                [Dispatch (TShaderMapRef ''FWhiteNoiseCS'' SM5)
                   \<lparr>OutputTexture = Some (FRDGTextureUAV (FRDGTexture
                       (PooledRenderTarget sample_desc ''CustomTexture'') ''CustomTexture''
                       ERenderTargetTexture_ShaderResource ERDGTextureFlags_MultiFrame))\<rparr>
                   (FIntVector 4 2 1)])],
            Immediate (CopyTexture
              (ShaderResourceTexture (PooledRenderTarget sample_desc ''CustomTexture''))
              (Texture2DRHI 7))])"
proof -
  have count: "ThreadGroupCount_of \<lparr>X = 100, Y = 64\<rparr> = FIntVector 4 2 1"
    by (simp add: ThreadGroupCount_of_def DivideAndRoundUp_def int32_div_def
        NUM_THREADS_PER_GROUP_DIMENSION_def)
  have w: "BeginRendering sample_world =
      \<lparr>instance_ptr = Some 0, managers = [sample_manager], RenderCommandQueue = [CaptureCommand]\<rparr>"
    by (simp add: BeginRendering_def ENQUEUE_RENDER_COMMAND_def sample_world_def)
  from BeginRendering_enqueues_one_dispatching_command
         [of sample_world "BeginRendering sample_world" 0 sample_target sample_resource
             "PF_Other 2" "Texture2DRHI 7" fresh_manager game_thread "[]"]
  obtain TexDesc where
    run: "run_render_command CaptureCommand fresh_manager game_thread (BeginRendering sample_world) []
       = Inr (BeginRendering sample_world,
           [FindFreeElement TexDesc ''CustomTexture'',
            GraphExecute
              [(''ComputeWhiteNoise'', Compute,
                [Dispatch (TShaderMapRef ''FWhiteNoiseCS'' SM5)
                   \<lparr>OutputTexture = Some (FRDGTextureUAV (FRDGTexture
                       (PooledRenderTarget TexDesc ''CustomTexture'') ''CustomTexture''
                       ERenderTargetTexture_ShaderResource ERDGTextureFlags_MultiFrame))\<rparr>
                   (FIntVector 4 2 1)])],
            Immediate (CopyTexture
              (ShaderResourceTexture (PooledRenderTarget TexDesc ''CustomTexture''))
              (Texture2DRHI 7))])"
    by (auto simp: w count sample_manager_def sample_params_def sample_target_def
        sample_resource_def game_thread_def)
  have direct: "run_render_command CaptureCommand fresh_manager game_thread (BeginRendering sample_world) []
       = Inr (BeginRendering sample_world,
           [FindFreeElement sample_desc ''CustomTexture'',
            GraphExecute
              [(''ComputeWhiteNoise'', Compute,
                [Dispatch (TShaderMapRef ''FWhiteNoiseCS'' SM5)
                   \<lparr>OutputTexture = Some (FRDGTextureUAV (FRDGTexture
                       (PooledRenderTarget sample_desc ''CustomTexture'') ''CustomTexture''
                       ERenderTargetTexture_ShaderResource ERDGTextureFlags_MultiFrame))\<rparr>
                   (FIntVector 4 2 1)])],
            Immediate (CopyTexture
              (ShaderResourceTexture (PooledRenderTarget sample_desc ''CustomTexture''))
              (Texture2DRHI 7))])"
    using UpdateResults_sample [of "game_thread\<lparr>IsInRenderingThread := True\<rparr>"]
    by (simp add: w CaptureCommand_lambda_def Get_def game_thread_def)
  from run direct show ?thesis by (simp add: w)
qed

text \<open>
  C1 where the resource of the render target has no render target texture: the command
  was enqueued, the parameters are valid and the render target is not null, and the command,
  run on the rendering thread, ends where the copy follows the null texture reference; there
  is no copy to the render target's texture.
\<close>

theorem render_command_fails_on_target_without_texture:
  "RenderCommandQueue (BeginRendering world_without_texture) = [CaptureCommand]
   \<and> instance_ptr (BeginRendering world_without_texture) = Some 0
   \<and> bCachedParamsAreValid (managers (BeginRendering world_without_texture) ! 0)
   \<and> RenderTarget (cachedParams (managers (BeginRendering world_without_texture) ! 0))
       = Some target_without_texture
   \<and> run_render_command CaptureCommand fresh_manager render_thread
        (BeginRendering world_without_texture) []
       = Inl (NullDereference ''OutTexture'')"
proof -
  have w: "BeginRendering world_without_texture =
      \<lparr>instance_ptr = Some 0, managers = [manager_of_target target_without_texture],
       RenderCommandQueue = [CaptureCommand]\<rparr>"
    by (simp add: BeginRendering_def ENQUEUE_RENDER_COMMAND_def world_without_texture_def)
  have "UpdateResults (render_thread\<lparr>IsInRenderingThread := True\<rparr>)
          (manager_of_target target_without_texture) [] = Inl (NullDereference ''OutTexture'')"
    by (rule UpdateResults_no_OutTexture
          [of _ target_without_texture _
              "\<lparr>GetRenderTargetTexture = None, TextureRHI = Some (PF_Other 2)\<rparr>" "PF_Other 2"])
       (simp_all add: manager_of_target_def target_without_texture_def)
  then show ?thesis
    by (simp add: w CaptureCommand_lambda_def Get_def manager_of_target_def)
qed

section \<open>The singleton\<close>

text \<open>
  C6. The static pointer starts as the null pointer. From there, however many times
  \<open>Get\<close> is called, every call returns the same pointer and the store holds at most one
  manager: none before the first call, one from then on. In any world a call of \<open>Get\<close>
  returns what the call before it returned, and it constructs a manager only when the
  pointer is null.
\<close>

theorem Get_returns_the_one_instance:
  "instance_ptr initial_world = None
   \<and> managers initial_world = []
   \<and> fst (Get_calls constructed n initial_world) = replicate n 0
   \<and> length (managers (snd (Get_calls constructed n initial_world))) = (if n = 0 then 0 else 1)
   \<and> length (managers (snd (Get_calls constructed n initial_world))) \<le> 1
   \<and> fst (Get constructed (snd (Get constructed w))) = fst (Get constructed w)
   \<and> length (managers (snd (Get constructed w)))
       = length (managers w) + (if instance_ptr w = None then 1 else 0)"
proof -
  have calls: "Get_calls constructed n initial_world =
      (replicate n 0,
       if n = 0 then initial_world
       else \<lparr>instance_ptr = Some 0, managers = [constructed], RenderCommandQueue = []\<rparr>)"
  proof (cases n)
    case 0
    then show ?thesis by simp
  next
    case (Suc m)
    have first: "Get constructed initial_world =
        (0, \<lparr>instance_ptr = Some 0, managers = [constructed], RenderCommandQueue = []\<rparr>)"
      by (simp add: Get_def initial_world_def)
    have rest: "Get_calls constructed m
          \<lparr>instance_ptr = Some 0, managers = [constructed], RenderCommandQueue = []\<rparr> =
        (replicate m 0, \<lparr>instance_ptr = Some 0, managers = [constructed], RenderCommandQueue = []\<rparr>)"
      by (rule Get_calls_set) simp
    from Suc show ?thesis by (simp add: first rest)
  qed
  have one: "length (managers (snd (Get constructed w)))
       = length (managers w) + (if instance_ptr w = None then 1 else 0)"
    by (simp add: Get_def split: option.splits)
  show ?thesis
    by (simp add: calls one Get_twice) (simp add: initial_world_def)
qed

theorem Get_returns_the_one_instance_witness:
  "Get_calls fresh_manager 3 initial_world =
     ([0, 0, 0], \<lparr>instance_ptr = Some 0, managers = [fresh_manager], RenderCommandQueue = []\<rparr>)"
proof -
  have "fst (Get_calls fresh_manager 3 initial_world) = [0, 0, 0]"
    using Get_returns_the_one_instance [of fresh_manager 3] by (simp add: numeral_3_eq_3)
  moreover have "snd (Get_calls fresh_manager 3 initial_world) =
      \<lparr>instance_ptr = Some 0, managers = [fresh_manager], RenderCommandQueue = []\<rparr>"
    by (simp add: numeral_3_eq_3 Get_def initial_world_def)
  ultimately show ?thesis by (simp add: prod_eq_iff)
qed

section \<open>The thread group count\<close>

text \<open>
  C9, within the range of \<open>int32\<close>. The size of the render target is a pair of
  \<open>int32\<close>, and \<open>DivideAndRoundUp\<close> adds 31 before it divides. For a width \<open>W\<close> and a
  height \<open>H\<close> from 1 to 2147483616 (the largest \<open>int32\<close> less 31) the sum stays in
  range, and the one dispatch \<open>UpdateResults\<close> makes, for a render target that is ready,
  has the thread group count \<open>(\<lceil>W / 32\<rceil>, \<lceil>H / 32\<rceil>, 1)\<close>.
\<close>

theorem dispatched_group_count_is_ceiling_in_range:
  assumes "bCachedParamsAreValid this" and "RenderTarget (cachedParams this) = Some rt"
    and "IsInRenderingThread ctx"
    and "GetRenderTargetResource rt = Some Resource"
    and "TextureRHI Resource = Some fmt"
    and "GetRenderTargetTexture Resource = Some OutTexture"
    and "GetRenderTargetSize (cachedParams this) = \<lparr>X = W, Y = H\<rparr>"
    and "0 < sint W" and "sint W \<le> 2147483616"
    and "0 < sint H" and "sint H \<le> 2147483616"
  shows "\<exists>gx gy.
      dispatched_group_counts (UpdateResults ctx this RHICmdList)
        = group_counts (recorded RHICmdList) @ [FIntVector gx gy 1]
      \<and> sint gx = \<lceil>real_of_int (sint W) / 32\<rceil>
      \<and> sint gy = \<lceil>real_of_int (sint H) / 32\<rceil>"
proof -
  from assms(3) have passes: "\<not> DO_CHECK ctx \<or> IsInRenderingThread ctx" by simp
  note run = UpdateResults_dispatch [OF assms(1,2) passes assms(4-6) refl refl, of RHICmdList]
  have counts: "dispatched_group_counts (UpdateResults ctx this RHICmdList)
      = group_counts (recorded RHICmdList) @
        [FIntVector (DivideAndRoundUp W NUM_THREADS_PER_GROUP_DIMENSION)
                    (DivideAndRoundUp H NUM_THREADS_PER_GROUP_DIMENSION) 1]"
    by (simp add: run dispatched_group_counts_def recorded_append group_counts_append
        ThreadGroupCount_of_def assms(7))
  have "sint (DivideAndRoundUp W NUM_THREADS_PER_GROUP_DIMENSION) = \<lceil>real_of_int (sint W) / 32\<rceil>"
    using assms(8,9) by (rule DivideAndRoundUp_32)
  moreover
  have "sint (DivideAndRoundUp H NUM_THREADS_PER_GROUP_DIMENSION) = \<lceil>real_of_int (sint H) / 32\<rceil>"
    using assms(10,11) by (rule DivideAndRoundUp_32)
  ultimately show ?thesis using counts by blast
qed

theorem dispatched_group_count_is_ceiling_in_range_witness:
  "dispatched_group_counts (UpdateResults render_thread sample_manager []) = [FIntVector 4 2 1]
   \<and> \<lceil>real_of_int (sint (100 :: int32)) / 32\<rceil> = 4
   \<and> \<lceil>real_of_int (sint (64 :: int32)) / 32\<rceil> = 2"
proof -
  have pre: "bCachedParamsAreValid sample_manager"
    "RenderTarget (cachedParams sample_manager) = Some sample_target"
    "IsInRenderingThread render_thread"
    "GetRenderTargetResource sample_target = Some sample_resource"
    "TextureRHI sample_resource = Some (PF_Other 2)"
    "GetRenderTargetTexture sample_resource = Some (Texture2DRHI 7)"
    "GetRenderTargetSize (cachedParams sample_manager) = \<lparr>X = 100, Y = 64\<rparr>"
    by (simp_all add: sample_manager_def sample_params_def sample_target_def
        sample_resource_def render_thread_def)
  have range: "0 < sint (100 :: int32)" "sint (100 :: int32) \<le> 2147483616"
    "0 < sint (64 :: int32)" "sint (64 :: int32) \<le> 2147483616"
    by simp_all
  have c: "\<lceil>real_of_int (sint (100 :: int32)) / 32\<rceil> = 4"
    "\<lceil>real_of_int (sint (64 :: int32)) / 32\<rceil> = 2"
    by (simp_all add: ceiling_div_32)
  from dispatched_group_count_is_ceiling_in_range [OF pre range, of "[]"]
  obtain gx gy where g:
    "dispatched_group_counts (UpdateResults render_thread sample_manager []) = [FIntVector gx gy 1]"
    "sint gx = 4" "sint gy = 2"
    using c by auto
  have "sint gx = sint (4 :: int32)" using g(2) by simp
  then have gx: "gx = 4" by (rule signed_word_eqI)
  have "sint gy = sint (2 :: int32)" using g(3) by simp
  then have "gy = 2" by (rule signed_word_eqI)
  note gx this
  with g(1) c show ?thesis by simp
qed

text \<open>
  C9 at the top of the range, where the statement for every positive size fails: for the
  size \<open>(2147483647, 32)\<close>, both positive, the sum wraps around and the dispatched count
  in X is \<open>-67108863\<close>, where \<open>\<lceil>2147483647 / 32\<rceil>\<close> is \<open>67108864\<close>.
\<close>

theorem dispatched_group_count_wraps_at_int32_max:
  "GetRenderTargetSize (cachedParams huge_manager) = \<lparr>X = 2147483647, Y = 32\<rparr>
   \<and> 0 < sint (2147483647 :: int32) \<and> 0 < sint (32 :: int32)
   \<and> dispatched_group_counts (UpdateResults render_thread huge_manager [])
       = [FIntVector (- 67108863) 1 1]
   \<and> sint (- 67108863 :: int32) = - 67108863
   \<and> \<lceil>real_of_int (sint (2147483647 :: int32)) / 32\<rceil> = 67108864"
proof -
  have pre: "bCachedParamsAreValid huge_manager"
    "RenderTarget (cachedParams huge_manager) = Some sample_target"
    "\<not> DO_CHECK render_thread \<or> IsInRenderingThread render_thread"
    "GetRenderTargetResource sample_target = Some sample_resource"
    "TextureRHI sample_resource = Some (PF_Other 2)"
    "GetRenderTargetTexture sample_resource = Some (Texture2DRHI 7)"
    by (simp_all add: huge_manager_def render_thread_def sample_target_def sample_resource_def)
  have size: "GetRenderTargetSize (cachedParams huge_manager) = \<lparr>X = 2147483647, Y = 32\<rparr>"
    by (simp add: huge_manager_def)
  have x: "DivideAndRoundUp 2147483647 NUM_THREADS_PER_GROUP_DIMENSION = - 67108863"
    by (simp add: DivideAndRoundUp_def int32_div_def NUM_THREADS_PER_GROUP_DIMENSION_def)
  have y: "DivideAndRoundUp 32 NUM_THREADS_PER_GROUP_DIMENSION = 1"
    by (simp add: DivideAndRoundUp_def int32_div_def NUM_THREADS_PER_GROUP_DIMENSION_def)
  note run = UpdateResults_dispatch [OF pre refl refl, of "[]"]
  have "dispatched_group_counts (UpdateResults render_thread huge_manager [])
       = [FIntVector (- 67108863) 1 1]"
    by (simp add: run dispatched_group_counts_def ThreadGroupCount_of_def size x y)
  moreover have "\<lceil>real_of_int (sint (2147483647 :: int32)) / 32\<rceil> = 67108864"
    by (simp add: ceiling_div_32)
  moreover have "sint (- 67108863 :: int32) = - 67108863" by simp
  ultimately show ?thesis using size by simp
qed

end
